theory Spec2Isabelle
  imports Complex_Main "HOL-Library.Product_Lexorder"
begin

section \<open>JavaScript values used by the server\<close>

text \<open>
  The server (\<^verbatim>\<open>src/server.js\<close>) is an Express application over a Mongoose model
  (\<^verbatim>\<open>src/models/Transaction.js\<close>). Its handlers are embedded as functions from the
  request and the collection to the response and the new collection. The library
  calls the handlers make (string and number conversion, \<^verbatim>\<open>Date\<close>, Mongoose casting
  and validation, MongoDB matching) are embedded after ECMAScript and the libraries'
  documented behaviour, as far as the handlers use them.

  A JavaScript string is a \<^typ>\<open>string\<close>: one \<^typ>\<open>char\<close> per UTF-16 code unit, for
  code units below 256. A JavaScript number is \<open>NaN\<close> or an exact rational: IEEE
  rounding, the sign of zero and the two infinities are outside the model (the literal
  \<^verbatim>\<open>Infinity\<close> is read as \<open>NaN\<close>, which is what \<^verbatim>\<open>new Date\<close> makes of it as
  well). \<^verbatim>\<open>undefined\<close> is \<open>None\<close> of an option type.
\<close>

datatype jsnum = NaN | Num rat

definition isWhiteSpace :: "char \<Rightarrow> bool" where
  \<comment> \<open>WhiteSpace and LineTerminator code units below 256\<close>
  "isWhiteSpace c = (c \<in> set [CHR 0x09, CHR 0x0A, CHR 0x0B, CHR 0x0C, CHR 0x0D, CHR 0x20, CHR 0xA0])"

definition trimStart :: "string \<Rightarrow> string" where
  "trimStart s = dropWhile isWhiteSpace s"

definition trim :: "string \<Rightarrow> string" where
  "trim s = rev (dropWhile isWhiteSpace (rev (dropWhile isWhiteSpace s)))"

definition digitValue :: "char \<Rightarrow> nat" where
  \<comment> \<open>the value of a digit of radix up to 36; 36 for a code unit that is no digit\<close>
  "digitValue c =
     (let n = (of_char c :: nat) in
      if 48 \<le> n \<and> n \<le> 57 then n - 48
      else if 97 \<le> n \<and> n \<le> 122 then n - 87
      else if 65 \<le> n \<and> n \<le> 90 then n - 55
      else 36)"

definition isRadixDigit :: "nat \<Rightarrow> char \<Rightarrow> bool" where
  "isRadixDigit R c = (digitValue c < R)"

definition radixValue :: "nat \<Rightarrow> string \<Rightarrow> nat" where
  "radixValue R ds = foldl (\<lambda>v c. v * R + digitValue c) 0 ds"

definition parseInt :: "string option \<Rightarrow> jsnum" where
  \<comment> \<open>\<^verbatim>\<open>parseInt(string)\<close> with no radix argument\<close>
  "parseInt arg =
     (let inputString = (case arg of None \<Rightarrow> ''undefined'' | Some s \<Rightarrow> s);
          S = trimStart inputString;
          sign = (if S \<noteq> [] \<and> hd S = CHR ''-'' then - 1 else 1 :: rat);
          S1 = (if S \<noteq> [] \<and> (hd S = CHR ''+'' \<or> hd S = CHR ''-'') then tl S else S);
          hex = (take 2 S1 = ''0x'' \<or> take 2 S1 = ''0X'');
          R = (if hex then 16 else 10);
          S2 = (if hex then drop 2 S1 else S1);
          Z = takeWhile (isRadixDigit R) S2
      in if Z = [] then NaN else Num (sign * of_nat (radixValue R Z)))"

definition scanDecimal :: "string \<Rightarrow> (rat \<times> string) option" where
  \<comment> \<open>the longest prefix that is a StrDecimalLiteral (but \<^verbatim>\<open>Infinity\<close>), its value and the rest\<close>
  "scanDecimal s =
     (let neg = (s \<noteq> [] \<and> hd s = CHR ''-'');
          s1 = (if s \<noteq> [] \<and> (hd s = CHR ''+'' \<or> hd s = CHR ''-'') then tl s else s);
          ip = takeWhile (isRadixDigit 10) s1;
          r1 = dropWhile (isRadixDigit 10) s1;
          dot = (r1 \<noteq> [] \<and> hd r1 = CHR ''.'');
          fp = (if dot then takeWhile (isRadixDigit 10) (tl r1) else []);
          r2 = (if dot then dropWhile (isRadixDigit 10) (tl r1) else r1)
      in if ip = [] \<and> fp = [] then None
         else
           let mant = of_nat (radixValue 10 ip) + of_nat (radixValue 10 fp) / 10 ^ length fp;
               ind = (r2 \<noteq> [] \<and> (hd r2 = CHR ''e'' \<or> hd r2 = CHR ''E''));
               e1 = (if ind then tl r2 else []);
               eneg = (e1 \<noteq> [] \<and> hd e1 = CHR ''-'');
               e2 = (if e1 \<noteq> [] \<and> (hd e1 = CHR ''+'' \<or> hd e1 = CHR ''-'') then tl e1 else e1);
               ed = takeWhile (isRadixDigit 10) e2;
               hasExp = (ind \<and> ed \<noteq> []);
               rest = (if hasExp then dropWhile (isRadixDigit 10) e2 else r2);
               scaled = (if hasExp
                         then (if eneg then mant / 10 ^ radixValue 10 ed
                               else mant * 10 ^ radixValue 10 ed)
                         else mant)
           in Some (if neg then - scaled else scaled, rest))"

definition parseFloat :: "string option \<Rightarrow> jsnum" where
  "parseFloat arg =
     (let inputString = (case arg of None \<Rightarrow> ''undefined'' | Some s \<Rightarrow> s)
      in case scanDecimal (trimStart inputString) of
           None \<Rightarrow> NaN
         | Some (v, rest) \<Rightarrow> Num v)"

definition nonDecimalRadix :: "string \<Rightarrow> nat option" where
  "nonDecimalRadix s =
     (let p = take 2 s in
      if p = ''0x'' \<or> p = ''0X'' then Some 16
      else if p = ''0o'' \<or> p = ''0O'' then Some 8
      else if p = ''0b'' \<or> p = ''0B'' then Some 2
      else None)"

definition StringToNumber :: "string \<Rightarrow> jsnum" where
  "StringToNumber str =
     (let s = trim str in
      if s = [] then Num 0
      else case nonDecimalRadix s of
        Some R \<Rightarrow>
          (let ds = drop 2 s in
           if ds \<noteq> [] \<and> list_all (isRadixDigit R) ds then Num (of_nat (radixValue R ds)) else NaN)
      | None \<Rightarrow>
          (case scanDecimal s of
             None \<Rightarrow> NaN
           | Some (v, rest) \<Rightarrow> if rest = [] then Num v else NaN))"

definition ToNumber :: "string option \<Rightarrow> jsnum" where
  \<comment> \<open>\<^verbatim>\<open>ToNumber\<close> of a string or of \<^verbatim>\<open>undefined\<close>\<close>
  "ToNumber arg = (case arg of None \<Rightarrow> NaN | Some s \<Rightarrow> StringToNumber s)"

definition ToInteger :: "rat \<Rightarrow> int" where
  \<comment> \<open>\<^verbatim>\<open>ToIntegerOrInfinity\<close> on a finite number: rounding towards zero\<close>
  "ToInteger x = (if x < 0 then - \<lfloor>- x\<rfloor> else \<lfloor>x\<rfloor>)"

definition split :: "char \<Rightarrow> string \<Rightarrow> string list" where
  \<comment> \<open>\<^verbatim>\<open>String.prototype.split\<close> with a one-character separator\<close>
  "split sep s = foldr (\<lambda>c acc. if c = sep then [] # acc else (c # hd acc) # tl acc) s [[]]"

definition elemAt :: "'a list \<Rightarrow> nat \<Rightarrow> 'a option" where
  \<comment> \<open>reading an array element: \<^verbatim>\<open>undefined\<close> out of range\<close>
  "elemAt xs i = (if i < length xs then Some (xs ! i) else None)"

fun digits :: "nat \<Rightarrow> string" where
  "digits n = (if n < 10 then [''0123456789'' ! n] else digits (n div 10) @ [''0123456789'' ! (n mod 10)])"

definition showInt :: "int \<Rightarrow> string" where
  "showInt i = (if i < 0 then CHR ''-'' # digits (nat (- i)) else digits (nat i))"

definition padStart :: "nat \<Rightarrow> char \<Rightarrow> string \<Rightarrow> string" where
  "padStart n c s = replicate (n - length s) c @ s"

section \<open>Dates\<close>

text \<open>
  A \<^verbatim>\<open>Date\<close> holds a time value: milliseconds since 1970-01-01T00:00Z, or \<open>NaN\<close>
  (an Invalid Date), here \<open>None\<close>. The process environment gives the local time zone,
  modelled as a fixed offset from UTC in milliseconds, and what \<^verbatim>\<open>Date.parse\<close> makes
  of a string that is not an ISO calendar date (ECMAScript leaves that to the engine).
\<close>

type_synonym jsdate = "int option"

record env =
  LocalTZA :: int
  legacyDateParse :: "string \<Rightarrow> jsdate"

definition msPerDay :: int where
  "msPerDay = 86400000"

definition Day :: "int \<Rightarrow> int" where
  "Day t = t div msPerDay"

definition TimeWithinDay :: "int \<Rightarrow> int" where
  "TimeWithinDay t = t mod msPerDay"

definition daysFromCivil :: "int \<Rightarrow> int \<Rightarrow> int \<Rightarrow> int" where
  \<comment> \<open>the day number of year \<open>y\<close>, month \<open>m\<close> (1 to 12), day \<open>d\<close> in the proleptic Gregorian calendar\<close>
  "daysFromCivil y m d =
     (let y1 = (if m \<le> 2 then y - 1 else y);
          era = y1 div 400;
          yoe = y1 - era * 400;
          doy = (153 * (if m > 2 then m - 3 else m + 9) + 2) div 5 + d - 1;
          doe = yoe * 365 + yoe div 4 - yoe div 100 + doy
      in era * 146097 + doe - 719468)"

definition civilFromDays :: "int \<Rightarrow> int \<times> int \<times> int" where
  \<comment> \<open>year, month (1 to 12) and day of the month of a day number\<close>
  "civilFromDays z =
     (let z1 = z + 719468;
          era = z1 div 146097;
          doe = z1 - era * 146097;
          yoe = (doe - doe div 1460 + doe div 36524 - doe div 146096) div 365;
          doy = doe - (365 * yoe + yoe div 4 - yoe div 100);
          mp = (5 * doy + 2) div 153;
          d = doy - (153 * mp + 2) div 5 + 1;
          m = (if mp < 10 then mp + 3 else mp - 9)
      in (if m \<le> 2 then yoe + era * 400 + 1 else yoe + era * 400, m, d))"

definition YearFromTime :: "int \<Rightarrow> int" where
  "YearFromTime t = fst (civilFromDays (Day t))"

definition MonthFromTime :: "int \<Rightarrow> int" where
  \<comment> \<open>0 for January to 11 for December\<close>
  "MonthFromTime t = fst (snd (civilFromDays (Day t))) - 1"

definition DateFromTime :: "int \<Rightarrow> int" where
  "DateFromTime t = snd (snd (civilFromDays (Day t)))"

definition MakeDay :: "rat \<Rightarrow> rat \<Rightarrow> rat \<Rightarrow> int" where
  "MakeDay year month date =
     (let y = ToInteger year; m = ToInteger month; dt = ToInteger date;
          ym = y + m div 12;
          mn = m mod 12
      in daysFromCivil ym (mn + 1) 1 + dt - 1)"

definition MakeDate :: "int \<Rightarrow> int \<Rightarrow> int" where
  "MakeDate day time = day * msPerDay + time"

definition TimeClip :: "int \<Rightarrow> jsdate" where
  "TimeClip t = (if \<bar>t\<bar> > 8640000000000000 then None else Some t)"

definition LocalTime :: "env \<Rightarrow> int \<Rightarrow> int" where
  "LocalTime e t = t + LocalTZA e"

definition UTC :: "env \<Rightarrow> int \<Rightarrow> int" where
  "UTC e t = t - LocalTZA e"

definition jsSub :: "jsnum \<Rightarrow> jsnum \<Rightarrow> jsnum" where
  "jsSub a b = (case (a, b) of (Num x, Num y) \<Rightarrow> Num (x - y) | _ \<Rightarrow> NaN)"

definition newDate :: "env \<Rightarrow> jsnum \<Rightarrow> jsnum \<Rightarrow> jsnum \<Rightarrow> jsdate" where
  \<comment> \<open>\<^verbatim>\<open>new Date(year, monthIndex, day)\<close>, the arguments already numbers\<close>
  "newDate e year month date =
     (case (year, month, date) of
        (Num y, Num m, Num dt) \<Rightarrow>
          (let yi = ToInteger y;
               yr = (if 0 \<le> yi \<and> yi \<le> 99 then 1900 + of_int yi else y)
           in TimeClip (UTC e (MakeDate (MakeDay yr m dt) 0)))
      | _ \<Rightarrow> None)"

definition getMonth :: "env \<Rightarrow> jsdate \<Rightarrow> jsnum" where
  "getMonth e d = (case d of None \<Rightarrow> NaN | Some t \<Rightarrow> Num (of_int (MonthFromTime (LocalTime e t))))"

definition setMonth :: "env \<Rightarrow> jsdate \<Rightarrow> jsnum \<Rightarrow> jsdate" where
  "setMonth e d month =
     (case (d, month) of
        (Some tv, Num m) \<Rightarrow>
          (let t = LocalTime e tv;
               newDate = MakeDate (MakeDay (of_int (YearFromTime t)) m (of_int (DateFromTime t)))
                           (TimeWithinDay t)
           in TimeClip (UTC e newDate))
      | _ \<Rightarrow> None)"

definition setDate :: "env \<Rightarrow> jsdate \<Rightarrow> jsnum \<Rightarrow> jsdate" where
  "setDate e d date =
     (case (d, date) of
        (Some tv, Num dt) \<Rightarrow>
          (let t = LocalTime e tv;
               newDate = MakeDate (MakeDay (of_int (YearFromTime t)) (of_int (MonthFromTime t)) dt)
                           (TimeWithinDay t)
           in TimeClip (UTC e newDate))
      | _ \<Rightarrow> None)"

definition DaysInMonth :: "int \<Rightarrow> int \<Rightarrow> int" where
  \<comment> \<open>the length of month \<open>m\<close> (1 to 12) of year \<open>y\<close>\<close>
  "DaysInMonth y m =
     (if m = 2 then (if y mod 4 = 0 \<and> (y mod 100 \<noteq> 0 \<or> y mod 400 = 0) then 29 else 28)
      else if m \<in> set [4, 6, 9, 11] then 30 else 31)"

definition isoCalendarDate :: "string \<Rightarrow> int option" where
  \<comment> \<open>the date-only form \<^verbatim>\<open>YYYY-MM-DD\<close> of the Date Time String Format: midnight UTC of that day\<close>
  "isoCalendarDate s =
     (if length s = 10 \<and> s ! 4 = CHR ''-'' \<and> s ! 7 = CHR ''-''
         \<and> list_all (isRadixDigit 10) (take 4 s @ take 2 (drop 5 s) @ drop 8 s)
      then
        (let y = int (radixValue 10 (take 4 s));
             m = int (radixValue 10 (take 2 (drop 5 s)));
             d = int (radixValue 10 (drop 8 s))
         in if 1 \<le> m \<and> m \<le> 12 \<and> 1 \<le> d \<and> d \<le> DaysInMonth y m
            then Some (daysFromCivil y m d * msPerDay) else None)
      else None)"

definition Date_parse :: "env \<Rightarrow> string option \<Rightarrow> jsdate" where
  \<comment> \<open>\<^verbatim>\<open>new Date(value)\<close> for a string or \<^verbatim>\<open>undefined\<close>\<close>
  "Date_parse e arg =
     (case arg of
        None \<Rightarrow> None
      | Some s \<Rightarrow> (case isoCalendarDate s of Some t \<Rightarrow> TimeClip t | None \<Rightarrow> legacyDateParse e s))"

definition monthShort :: "int \<Rightarrow> string" where
  "monthShort m = [''Jan'', ''Feb'', ''Mar'', ''Apr'', ''May'', ''Jun'',
                   ''Jul'', ''Aug'', ''Sep'', ''Oct'', ''Nov'', ''Dec''] ! nat m"

definition yearOfEra :: "int \<Rightarrow> int" where
  \<comment> \<open>the \<^verbatim>\<open>numeric\<close> year of the en-US formats: years before 1 count backwards from 1\<close>
  "yearOfEra y = (if y \<le> 0 then 1 - y else y)"

definition formatDate :: "env \<Rightarrow> jsdate \<Rightarrow> string" where
  \<comment> \<open>\<^verbatim>\<open>formatters.date\<close>: \<^verbatim>\<open>toLocaleDateString('en-US', {year:'numeric', month:'short', day:'numeric'})\<close>\<close>
  "formatDate e d =
     (case d of
        None \<Rightarrow> ''Invalid Date''
      | Some tv \<Rightarrow>
          (let t = LocalTime e tv in
           monthShort (MonthFromTime t) @ '' '' @ showInt (DateFromTime t) @ '', ''
             @ showInt (yearOfEra (YearFromTime t))))"

definition formatMonthYear :: "env \<Rightarrow> jsdate \<Rightarrow> string" where
  \<comment> \<open>\<^verbatim>\<open>toLocaleString('en-US', {month:'short', year:'numeric'})\<close>\<close>
  "formatMonthYear e d =
     (case d of
        None \<Rightarrow> ''Invalid Date''
      | Some tv \<Rightarrow>
          (let t = LocalTime e tv in
           monthShort (MonthFromTime t) @ '' '' @ showInt (yearOfEra (YearFromTime t))))"

subsection \<open>The trailing window of the dashboard\<close>

definition twelveMonthsAgo :: "env \<Rightarrow> int \<Rightarrow> jsdate" where
  \<comment> \<open>\<^verbatim>\<open>src/server.js\<close> 203 to 205, \<open>now\<close> the value of \<^verbatim>\<open>new Date()\<close>\<close>
  "twelveMonthsAgo e now =
     (let d0 = Some now;
          d1 = setMonth e d0 (jsSub (getMonth e d0) (Num 11));
          d2 = setDate e d1 (Num 1)
      in d2)"

section \<open>The Transaction model\<close>

text \<open>
  \<^verbatim>\<open>src/models/Transaction.js\<close>: a stored document has the paths of the schema, the
  \<^verbatim>\<open>_id\<close> Mongoose gives every document and the two timestamps of
  \<^verbatim>\<open>timestamps: true\<close>. \<^verbatim>\<open>userId\<close> is a \<^verbatim>\<open>String\<close> path: whatever the server
  stores there is kept as a string.
\<close>

record transaction =
  docId :: string
  userId :: string
  type :: string
  category :: string
  amount :: rat
  note' :: string
  date :: int
  createdAt :: int
  updatedAt :: int

type_synonym collection = "transaction list"

text \<open>
  The object given to \<^verbatim>\<open>new Transaction({...})\<close>: a path is \<^verbatim>\<open>undefined\<close> or holds a
  value of the kind the server passes (strings from the request body, the number
  \<^verbatim>\<open>parseFloat\<close> returned, the \<^verbatim>\<open>Date\<close> that \<^verbatim>\<open>new Date\<close> built).
\<close>

record transactionInput =
  in_userId :: "string option"
  in_type :: "string option"
  in_category :: "string option"
  in_amount :: "jsnum option"
  in_note :: "string option"
  in_date :: "jsdate option"

datatype validatorKind = RequiredV | EnumV | MinV | CastV

datatype error =
    ValidationError "(string \<times> validatorKind) list"
  | CastError string

text \<open>
  A Mongoose document under construction: a default fills a path that was
  \<^verbatim>\<open>undefined\<close>, the value is cast to the schema type, and a value that does not cast
  leaves the path unset with a cast error that validation reports.
\<close>

record document =
  d_userId :: "string option"
  d_type :: "string option"
  d_category :: "string option"
  d_amount :: "rat option"
  d_note :: "string option"
  d_date :: "int option"
  castErrors :: "string list"

definition newTransaction :: "transactionInput \<Rightarrow> document" where
  "newTransaction i =
     \<lparr> d_userId = (case in_userId i of None \<Rightarrow> Some ''default_user'' | Some u \<Rightarrow> Some u),
       d_type = in_type i,
       d_category = in_category i,
       d_amount = (case in_amount i of Some (Num a) \<Rightarrow> Some a | _ \<Rightarrow> None),
       d_note = (case in_note i of None \<Rightarrow> Some [] | Some n \<Rightarrow> Some (trim n)),
       d_date = (case in_date i of Some (Some t) \<Rightarrow> Some t | _ \<Rightarrow> None),
       castErrors = (if in_amount i = Some NaN then [''amount''] else [])
                  @ (if in_date i = Some None then [''date''] else []) \<rparr>"

definition requiredString :: "string \<Rightarrow> string option \<Rightarrow> (string \<times> validatorKind) list" where
  \<comment> \<open>\<^verbatim>\<open>required: true\<close> on a String path: a non-empty string\<close>
  "requiredString path v =
     (case v of Some s \<Rightarrow> (if s = [] then [(path, RequiredV)] else []) | None \<Rightarrow> [(path, RequiredV)])"

definition validate :: "document \<Rightarrow> (string \<times> validatorKind) list" where
  \<comment> \<open>the validators of the schema, path by path; a path with a cast error reports that alone\<close>
  "validate d =
     requiredString ''userId'' (d_userId d)
     @ requiredString ''type'' (d_type d)
     @ (case d_type d of
          Some s \<Rightarrow> (if s \<in> set [''income'', ''expense''] then [] else [(''type'', EnumV)])
        | None \<Rightarrow> [])
     @ requiredString ''category'' (d_category d)
     @ (if ''amount'' \<in> set (castErrors d) then [(''amount'', CastV)]
        else case d_amount d of
               None \<Rightarrow> [(''amount'', RequiredV)]
             | Some a \<Rightarrow> (if a \<ge> 1 / 100 then [] else [(''amount'', MinV)]))
     @ (if ''date'' \<in> set (castErrors d) then [(''date'', CastV)]
        else case d_date d of None \<Rightarrow> [(''date'', RequiredV)] | Some t \<Rightarrow> [])"

definition save :: "string \<Rightarrow> int \<Rightarrow> document \<Rightarrow> collection \<Rightarrow> error + collection" where
  \<comment> \<open>\<^verbatim>\<open>doc.save()\<close> of a new document: validation, then the insert with both timestamps;
      \<open>newId\<close> is the \<^verbatim>\<open>_id\<close> the constructor generated\<close>
  "save newId now d db =
     (case validate d of
        [] \<Rightarrow> Inr (db @ [\<lparr> docId = newId, userId = the (d_userId d), type = the (d_type d),
                             category = the (d_category d), amount = the (d_amount d),
                             note' = the (d_note d), date = the (d_date d),
                             createdAt = now, updatedAt = now \<rparr>])
      | errs \<Rightarrow> Inl (ValidationError errs))"

section \<open>Queries on the collection\<close>

text \<open>
  The collection is the list of its documents in insertion order. The filter object the
  dashboard builds holds the \<^verbatim>\<open>Date\<close> objects as they were constructed;
  \<^verbatim>\<open>Transaction.find\<close> casts it to the schema before the query runs, and an Invalid
  Date does not cast.
\<close>

record filterObject =
  f_userId :: string
  f_date :: "(jsdate \<times> jsdate) option"
  f_category :: "string option"

record conditions =
  c_userId :: string
  c_date :: "(int \<times> int) option"
  c_category :: "string option"

definition castFilter :: "filterObject \<Rightarrow> error + conditions" where
  "castFilter f =
     (case f_date f of
        None \<Rightarrow> Inr \<lparr> c_userId = f_userId f, c_date = None, c_category = f_category f \<rparr>
      | Some (Some gte, Some lte) \<Rightarrow>
          Inr \<lparr> c_userId = f_userId f, c_date = Some (gte, lte), c_category = f_category f \<rparr>
      | Some _ \<Rightarrow> Inl (CastError ''date''))"

definition matches :: "conditions \<Rightarrow> transaction \<Rightarrow> bool" where
  "matches c t =
     (userId t = c_userId c
      \<and> (case c_date c of None \<Rightarrow> True | Some (gte, lte) \<Rightarrow> gte \<le> date t \<and> date t \<le> lte)
      \<and> (case c_category c of None \<Rightarrow> True | Some cat \<Rightarrow> category t = cat))"

definition find :: "conditions \<Rightarrow> collection \<Rightarrow> transaction list" where
  "find c db = filter (matches c) db"

definition sortNewestFirst :: "transaction list \<Rightarrow> transaction list" where
  \<comment> \<open>\<^verbatim>\<open>.sort({ date: -1, createdAt: -1 })\<close>\<close>
  "sortNewestFirst ts = sort_key (\<lambda>t. (- date t, - createdAt t)) ts"

definition sortByDate :: "transaction list \<Rightarrow> transaction list" where
  \<comment> \<open>\<^verbatim>\<open>.sort({ date: 1 })\<close>\<close>
  "sortByDate ts = sort_key date ts"

text \<open>
  An \<^verbatim>\<open>_id\<close> is an ObjectId, written as 24 hexadecimal digits; a string that is not of
  that form does not cast to one. Two spellings of the same digits are the same ObjectId.
\<close>

definition isObjectIdString :: "string \<Rightarrow> bool" where
  "isObjectIdString s = (length s = 24 \<and> list_all (isRadixDigit 16) s)"

definition toHexString :: "string \<Rightarrow> string" where
  "toHexString s = map (\<lambda>c. ''0123456789abcdef'' ! digitValue c) s"

fun findOneAndUpdate ::
  "(transaction \<Rightarrow> bool) \<Rightarrow> (transaction \<Rightarrow> transaction) \<Rightarrow> collection \<Rightarrow> transaction option \<times> collection" where
  "findOneAndUpdate p f [] = (None, [])"
| "findOneAndUpdate p f (t # ts) =
     (if p t then (Some t, f t # ts)
      else (let (found, ts') = findOneAndUpdate p f ts in (found, t # ts')))"

fun findOneAndDelete :: "(transaction \<Rightarrow> bool) \<Rightarrow> collection \<Rightarrow> transaction option \<times> collection" where
  "findOneAndDelete p [] = (None, [])"
| "findOneAndDelete p (t # ts) =
     (if p t then (Some t, ts)
      else (let (found, ts') = findOneAndDelete p ts in (found, t # ts')))"

subsection \<open>The aggregation pipeline of the dashboard\<close>

text \<open>
  \<^verbatim>\<open>Transaction.aggregate\<close> sends its pipeline to MongoDB as it is written: Mongoose
  casts no stage of it to the schema. \<^verbatim>\<open>$match\<close> compares a field with a value of the
  same BSON type only, so an ObjectId in the pipeline equals no string in a document.
  \<^verbatim>\<open>$year\<close> and \<^verbatim>\<open>$month\<close> read a date in UTC.
\<close>

datatype bson = BString string | BObjectId string

fun bsonEq :: "bson \<Rightarrow> bson \<Rightarrow> bool" where
  "bsonEq (BString a) (BString b) = (a = b)"
| "bsonEq (BObjectId a) (BObjectId b) = (toHexString a = toHexString b)"
| "bsonEq _ _ = False"

definition matchStage :: "bson \<Rightarrow> jsdate \<Rightarrow> collection \<Rightarrow> transaction list" where
  \<comment> \<open>\<^verbatim>\<open>{ $match: { userId: ..., date: { $gte: twelveMonthsAgo } } }\<close>\<close>
  "matchStage uid since db =
     filter (\<lambda>t. bsonEq (BString (userId t)) uid
                  \<and> (case since of Some s \<Rightarrow> s \<le> date t | None \<Rightarrow> False)) db"

record monthTotals =
  year :: int
  month :: int
  totalIncome :: rat
  totalExpense :: rat

definition groupKey :: "transaction \<Rightarrow> int \<times> int" where
  \<comment> \<open>\<^verbatim>\<open>{ year: { $year: "$date" }, month: { $month: "$date" } }\<close>\<close>
  "groupKey t = (YearFromTime (date t), MonthFromTime (date t) + 1)"

definition groupStage :: "transaction list \<Rightarrow> monthTotals list" where
  "groupStage docs =
     map (\<lambda>k. let members = filter (\<lambda>t. groupKey t = k) docs in
               \<lparr> year = fst k, month = snd k,
                 totalIncome = sum_list (map (\<lambda>t. if type t = ''income'' then amount t else 0) members),
                 totalExpense = sum_list (map (\<lambda>t. if type t = ''expense'' then amount t else 0) members) \<rparr>)
         (remdups (map groupKey docs))"

definition sortStage :: "monthTotals list \<Rightarrow> monthTotals list" where
  \<comment> \<open>\<^verbatim>\<open>{ $sort: { "_id.year": 1, "_id.month": 1 } }\<close>\<close>
  "sortStage rows = sort_key (\<lambda>r. (year r, month r)) rows"

definition aggregate :: "bson \<Rightarrow> jsdate \<Rightarrow> collection \<Rightarrow> monthTotals list" where
  "aggregate uid since db = sortStage (groupStage (matchStage uid since db))"

section \<open>The request handlers\<close>

text \<open>
  A request carries the session's \<^verbatim>\<open>userId\<close> (absent when nobody is logged in), the
  query or the body as optional strings, and the route parameter \<^verbatim>\<open>:id\<close>. A handler
  returns the response and the collection after it. The views' other inputs (the user
  record, the category list, the formatters) play no part in what follows and are left
  out of \<open>indexView\<close>.
\<close>

record summary =
  income :: rat
  expense :: rat
  net :: rat

record breakdownEntry = summary +
  label :: string
  monthKey :: string

record indexView =
  v_transactions :: "transaction list"
  v_summary :: summary
  v_monthlyBreakdown :: "breakdownEntry list"
  v_editTransaction :: "transaction option"

datatype response =
    Redirect string
  | RedirectError error
  | Render indexView
  | ServerError error
  | ServerErrorPage
  | NotFound
  | SendCsv string

record query =
  q_month :: "string option"
  q_category :: "string option"

record body =
  b_type :: "string option"
  b_category :: "string option"
  b_amount :: "string option"
  b_note :: "string option"
  b_date :: "string option"

definition truthy :: "string option \<Rightarrow> bool" where
  \<comment> \<open>a string is truthy unless it is empty; \<^verbatim>\<open>undefined\<close> is not\<close>
  "truthy v = (case v of None \<Rightarrow> False | Some s \<Rightarrow> s \<noteq> [])"

definition percentEncode :: "nat \<Rightarrow> string" where
  "percentEncode b = [CHR ''%'', ''0123456789ABCDEF'' ! (b div 16), ''0123456789ABCDEF'' ! (b mod 16)]"

definition encodeURIComponent :: "string \<Rightarrow> string" where
  "encodeURIComponent s =
     concat (map (\<lambda>c. let n = (of_char c :: nat) in
                       if isRadixDigit 36 c \<or> c \<in> set (CHR 0x27 # ''-_.!~*()'') then [c]
                       else if n < 128 then percentEncode n
                       else percentEncode (192 + n div 64) @ percentEncode (128 + n mod 64)) s)"

definition loginRedirect :: response where
  \<comment> \<open>\<^verbatim>\<open>isAuthenticated\<close> when the session has no user\<close>
  "loginRedirect = Redirect (''/login?error='' @ encodeURIComponent ''Please log in to view the dashboard.'')"

text \<open>
  \<^verbatim>\<open>calculateSummary\<close> receives a reference to an array. To say what it does to that
  array, arrays live in a heap: the array at address \<open>r\<close> is \<open>h ! r\<close>.
  \<^verbatim>\<open>Array.prototype.filter\<close> allocates its result, \<^verbatim>\<open>reduce\<close> allocates nothing, and
  neither callback assigns to anything.
\<close>

type_synonym heap = "transaction list list"

definition arrayFilter :: "(transaction \<Rightarrow> bool) \<Rightarrow> nat \<Rightarrow> heap \<Rightarrow> nat \<times> heap" where
  "arrayFilter p r h = (length h, h @ [filter p (h ! r)])"

definition arrayReduce :: "('a \<Rightarrow> transaction \<Rightarrow> 'a) \<Rightarrow> 'a \<Rightarrow> nat \<Rightarrow> heap \<Rightarrow> 'a" where
  "arrayReduce f z r h = foldl f z (h ! r)"

definition calculateSummaryAt :: "nat \<Rightarrow> heap \<Rightarrow> summary \<times> heap" where
  \<comment> \<open>\<^verbatim>\<open>src/server.js\<close> 67 to 76, \<open>transactions\<close> the address of the argument\<close>
  "calculateSummaryAt transactions h =
     (let (incomes, h1) = arrayFilter (\<lambda>t. type t = ''income'') transactions h;
          income = arrayReduce (\<lambda>sum t. sum + amount t) 0 incomes h1;
          (expenses, h2) = arrayFilter (\<lambda>t. type t = ''expense'') transactions h1;
          expense = arrayReduce (\<lambda>sum t. sum + amount t) 0 expenses h2;
          net = income - expense
      in (\<lparr> income = income, expense = expense, net = net \<rparr>, h2))"

definition calculateSummary :: "transaction list \<Rightarrow> summary" where
  \<comment> \<open>the call on an array that is the only one in the heap\<close>
  "calculateSummary transactions = fst (calculateSummaryAt 0 [transactions])"

definition buildFilter :: "env \<Rightarrow> string \<Rightarrow> query \<Rightarrow> filterObject" where
  \<comment> \<open>\<^verbatim>\<open>src/server.js\<close> 177 to 195\<close>
  "buildFilter e uid queryParams =
     (let filter0 = \<lparr> f_userId = uid, f_date = None, f_category = None \<rparr>;
          filter1 =
            (if truthy (q_month queryParams) \<and> q_month queryParams \<noteq> Some ''all''
             then (let parts = split CHR ''-'' (the (q_month queryParams));
                       year = elemAt parts 0;
                       month = elemAt parts 1;
                       startDate = newDate e (ToNumber year) (jsSub (parseInt month) (Num 1)) (Num 1);
                       endDate = newDate e (ToNumber year) (parseInt month) (Num 0)
                   in filter0 \<lparr> f_date := Some (startDate, endDate) \<rparr>)
             else filter0);
          filter2 =
            (if truthy (q_category queryParams) \<and> q_category queryParams \<noteq> Some ''all''
             then filter1 \<lparr> f_category := q_category queryParams \<rparr>
             else filter1)
      in filter2)"

definition monthlyBreakdownOf :: "env \<Rightarrow> monthTotals list \<Rightarrow> breakdownEntry list" where
  \<comment> \<open>\<^verbatim>\<open>src/server.js\<close> 236 to 245\<close>
  "monthlyBreakdownOf e monthlyData =
     map (\<lambda>data.
            let d = newDate e (Num (of_int (year data))) (Num (of_int (month data - 1))) (Num 1)
            in \<lparr> income = totalIncome data,
                 expense = totalExpense data,
                 net = totalIncome data - totalExpense data,
                 label = formatMonthYear e d,
                 monthKey = showInt (year data) @ ''-'' @ padStart 2 CHR ''0'' (showInt (month data)) \<rparr>)
         monthlyData"

definition dashboard :: "env \<Rightarrow> int \<Rightarrow> string option \<Rightarrow> query \<Rightarrow> collection \<Rightarrow> response" where
  \<comment> \<open>\<^verbatim>\<open>GET /\<close>; \<open>now\<close> is the value of \<^verbatim>\<open>new Date()\<close>. A \<^verbatim>\<open>userId\<close> that is no
      ObjectId makes \<^verbatim>\<open>User.findById\<close> and \<^verbatim>\<open>new mongoose.Types.ObjectId\<close> throw.\<close>
  "dashboard e now session queryParams db =
     (if \<not> truthy session then loginRedirect
      else
        (let uid = the session in
         if \<not> isObjectIdString uid then ServerError (CastError ''_id'')
         else
           (case castFilter (buildFilter e uid queryParams) of
              Inl err \<Rightarrow> ServerError err
            | Inr c \<Rightarrow>
                (let transactions = sortNewestFirst (find c db);
                     summary = calculateSummary transactions;
                     monthlyData = aggregate (BObjectId uid) (twelveMonthsAgo e now) db;
                     monthlyBreakdown = monthlyBreakdownOf e monthlyData
                 in Render \<lparr> v_transactions = transactions, v_summary = summary,
                             v_monthlyBreakdown = monthlyBreakdown, v_editTransaction = None \<rparr>))))"

definition addTransaction ::
  "env \<Rightarrow> int \<Rightarrow> string \<Rightarrow> string option \<Rightarrow> body \<Rightarrow> collection \<Rightarrow> response \<times> collection" where
  \<comment> \<open>\<^verbatim>\<open>POST /add\<close>; \<open>newId\<close> is the \<^verbatim>\<open>_id\<close> generated for the new document\<close>
  "addTransaction e now newId session b db =
     (if \<not> truthy session then (loginRedirect, db)
      else if \<not> truthy (b_type b) \<or> \<not> truthy (b_category b) \<or> \<not> truthy (b_amount b) \<or> \<not> truthy (b_date b)
      then (Redirect (''/?error='' @ encodeURIComponent ''Missing required fields.''), db)
      else
        (let doc = newTransaction
                     \<lparr> in_userId = session, in_type = b_type b, in_category = b_category b,
                       in_amount = Some (parseFloat (b_amount b)), in_note = b_note b,
                       in_date = Some (Date_parse e (b_date b)) \<rparr>
         in case save newId now doc db of
              Inr db' \<Rightarrow> (Redirect ''/'', db')
            | Inl err \<Rightarrow> (RedirectError err, db)))"

text \<open>
  \<^verbatim>\<open>findOneAndUpdate\<close> casts the conditions and the update to the schema, drops the keys
  of the update that are \<^verbatim>\<open>undefined\<close>, sets \<^verbatim>\<open>updatedAt\<close>, and runs no validator: the
  call passes no \<^verbatim>\<open>runValidators\<close> option.
\<close>

definition ownedWithId :: "string \<Rightarrow> string \<Rightarrow> transaction \<Rightarrow> bool" where
  \<comment> \<open>\<^verbatim>\<open>{ _id: req.params.id, userId: req.session.userId }\<close>, the id already an ObjectId\<close>
  "ownedWithId ident uid t = (toHexString (docId t) = toHexString ident \<and> userId t = uid)"

definition applyUpdate :: "int \<Rightarrow> string option \<Rightarrow> string option \<Rightarrow> rat \<Rightarrow> string option \<Rightarrow> int
    \<Rightarrow> transaction \<Rightarrow> transaction" where
  "applyUpdate now ty cat amt nt dt t =
     t \<lparr> type := (case ty of Some s \<Rightarrow> s | None \<Rightarrow> type t),
         category := (case cat of Some s \<Rightarrow> s | None \<Rightarrow> category t),
         amount := amt,
         note' := (case nt of Some s \<Rightarrow> trim s | None \<Rightarrow> note' t),
         date := dt,
         updatedAt := now \<rparr>"

definition updateTransaction ::
  "env \<Rightarrow> int \<Rightarrow> string option \<Rightarrow> string \<Rightarrow> body \<Rightarrow> collection \<Rightarrow> response \<times> collection" where
  \<comment> \<open>\<^verbatim>\<open>POST /update/:id\<close>\<close>
  "updateTransaction e now session ident b db =
     (if \<not> truthy session then (loginRedirect, db)
      else if \<not> isObjectIdString ident then (RedirectError (CastError ''_id''), db)
      else
        (case (parseFloat (b_amount b), Date_parse e (b_date b)) of
           (Num amt, Some dt) \<Rightarrow>
             (let (updated, db') =
                    findOneAndUpdate (ownedWithId ident (the session))
                      (applyUpdate now (b_type b) (b_category b) amt (b_note b) dt) db
              in case updated of
                   None \<Rightarrow> (Redirect (''/?error='' @ encodeURIComponent ''Update failed.''), db')
                 | Some t \<Rightarrow> (Redirect ''/'', db'))
         | (NaN, _) \<Rightarrow> (RedirectError (CastError ''amount''), db)
         | (_, None) \<Rightarrow> (RedirectError (CastError ''date''), db)))"

definition deleteTransaction ::
  "string option \<Rightarrow> string \<Rightarrow> collection \<Rightarrow> response \<times> collection" where
  \<comment> \<open>\<^verbatim>\<open>POST /delete/:id\<close>\<close>
  "deleteTransaction session ident db =
     (if \<not> truthy session then (loginRedirect, db)
      else if \<not> isObjectIdString ident then (RedirectError (CastError ''_id''), db)
      else
        (let (deleted, db') = findOneAndDelete (ownedWithId ident (the session)) db
         in case deleted of
              None \<Rightarrow> (Redirect (''/?error='' @ encodeURIComponent ''Delete failed.''), db')
            | Some t \<Rightarrow> (Redirect ''/'', db')))"

subsection \<open>The CSV export\<close>

definition toUpperCase :: "string \<Rightarrow> string" where
  \<comment> \<open>on code units below 256; the two whose capital lies above 255 (0xB5, 0xFF) are kept\<close>
  "toUpperCase s =
     concat (map (\<lambda>c. let n = (of_char c :: nat) in
                       if (97 \<le> n \<and> n \<le> 122) \<or> (224 \<le> n \<and> n \<le> 254 \<and> n \<noteq> 247) then [char_of (n - 32)]
                       else if n = 223 then ''SS''
                       else [c]) s)"

definition stripTrailingZeros :: "string \<Rightarrow> string" where
  "stripTrailingZeros ds = rev (dropWhile (\<lambda>c. c = CHR ''0'') (rev ds))"

definition exponentialString :: "rat \<Rightarrow> string" where
  \<comment> \<open>\<^verbatim>\<open>Number::toString\<close> of a number of at least \<open>10^21\<close> (an integer, as every double of
      that size is), from its decimal expansion: exact where that expansion is the
      shortest digit string that reads back as the number, as for \<open>10^21\<close> itself\<close>
  "exponentialString x =
     (let ds = digits (nat \<lfloor>x\<rfloor>);
          s = stripTrailingZeros ds;
          ex = digits (length ds - 1)
      in if length s = 1 then s @ ''e+'' @ ex
         else hd s # CHR ''.'' # tl s @ ''e+'' @ ex)"

definition toFixed :: "nat \<Rightarrow> rat \<Rightarrow> string" where
  \<comment> \<open>\<^verbatim>\<open>Number.prototype.toFixed(f)\<close> on a finite number\<close>
  "toFixed f x0 =
     (let s = (if x0 < 0 then ''-'' else []);
          x = (if x0 < 0 then - x0 else x0)
      in if x \<ge> 10 ^ 21 then s @ exponentialString x
         else
           (let n = nat \<lfloor>x * 10 ^ f + 1 / 2\<rfloor>;
                m = digits n
            in if f \<noteq> 0
               then (let m1 = (if length m \<le> f then replicate (f + 1 - length m) CHR ''0'' @ m else m);
                         k = length m1
                     in s @ take (k - f) m1 @ ''.'' @ drop (k - f) m1)
               else s @ m))"

definition csvQuote :: "string \<Rightarrow> string" where
  \<comment> \<open>\<^verbatim>\<open>`"${field.replace(/"/g, '""')}"`\<close>\<close>
  "csvQuote field =
     CHR 0x22 # concat (map (\<lambda>c. if c = CHR 0x22 then [CHR 0x22, CHR 0x22] else [c]) field) @ [CHR 0x22]"

fun join :: "string \<Rightarrow> string list \<Rightarrow> string" where
  "join sep [] = []"
| "join sep [x] = x"
| "join sep (x # y # ys) = x @ sep @ join sep (y # ys)"

definition csvHeader :: string where
  "csvHeader = ''Date,Type,Category,Amount,Note,Created At'' @ [CHR 0x0A]"

definition csvRow :: "env \<Rightarrow> transaction \<Rightarrow> string" where
  \<comment> \<open>\<^verbatim>\<open>src/server.js\<close> 377 to 384\<close>
  "csvRow e t =
     join '','' [formatDate e (Some (date t)),
                toUpperCase (type t),
                csvQuote (category t),
                toFixed 2 (amount t),
                csvQuote (note' t),
                formatDate e (Some (createdAt t))] @ [CHR 0x0A]"

definition buildCsv :: "env \<Rightarrow> transaction list \<Rightarrow> string" where
  \<comment> \<open>the \<^verbatim>\<open>forEach\<close> of \<^verbatim>\<open>src/server.js\<close> 374 to 385\<close>
  "buildCsv e transactions = foldl (\<lambda>csv t. csv @ csvRow e t) csvHeader transactions"

definition exportCsv :: "env \<Rightarrow> string option \<Rightarrow> collection \<Rightarrow> response" where
  \<comment> \<open>\<^verbatim>\<open>GET /export/csv\<close>\<close>
  "exportCsv e session db =
     (if \<not> truthy session then loginRedirect
      else
        (let transactions =
               sortByDate (find \<lparr> c_userId = the session, c_date = None, c_category = None \<rparr> db)
         in if length transactions = 0
            then Redirect (''/?error='' @ encodeURIComponent ''No transactions to export.'')
            else SendCsv (buildCsv e transactions)))"

definition editPage :: "string option \<Rightarrow> string \<Rightarrow> collection \<Rightarrow> response" where
  \<comment> \<open>\<^verbatim>\<open>GET /edit/:id\<close>; a cast error of the id ends in the catch clause\<close>
  "editPage session ident db =
     (if \<not> truthy session then loginRedirect
      else if \<not> isObjectIdString ident then ServerErrorPage
      else
        (case List.find (ownedWithId ident (the session)) db of
           None \<Rightarrow> NotFound
         | Some editTransaction \<Rightarrow>
             (let transactions =
                    sortNewestFirst (find \<lparr> c_userId = the session, c_date = None, c_category = None \<rparr> db);
                  summary = calculateSummary transactions
              in Render \<lparr> v_transactions = transactions, v_summary = summary,
                          v_monthlyBreakdown = [], v_editTransaction = Some editTransaction \<rparr>)))"

section \<open>Auxiliary facts\<close>

declare digits.simps [simp del]

lemma split_nonempty: "split sep s \<noteq> []"
  by (induction s) (simp_all add: split_def)





lemma find_owner:
  "find \<lparr> c_userId = u, c_date = None, c_category = None \<rparr> db = filter (\<lambda>t. userId t = u) db"
  by (simp add: find_def matches_def [abs_def])

lemma noTransactionsUrl:
  "encodeURIComponent ''No transactions to export.'' = ''No%20transactions%20to%20export.''"
  by (simp add: encodeURIComponent_def percentEncode_def isRadixDigit_def digitValue_def)

section \<open>The Summary Calculator\<close>



section \<open>The CSV export\<close>

text \<open>
  C9. When the collection holds no transaction of the logged-in user, the export
  answers with the redirect that carries the message \<^verbatim>\<open>No transactions to export.\<close>:
  not a CSV file, and not the redirect of the catch clause.
\<close>

theorem export_nothing_to_export:
  assumes "u \<noteq> []" and "list_all (\<lambda>t. userId t \<noteq> u) db"
  shows "exportCsv e (Some u) db = Redirect ''/?error=No%20transactions%20to%20export.''"
proof -
  have "filter (\<lambda>t. userId t = u) db = []"
    using assms(2) by (induction db) simp_all
  then show ?thesis
    using assms(1)
    by (simp add: exportCsv_def truthy_def sortByDate_def find_owner noTransactionsUrl)
qed

theorem export_nothing_to_export_witness:
  "''u1'' \<noteq> []
   \<and> list_all (\<lambda>t. userId t \<noteq> ''u1'')
       [\<lparr> docId = ''a'', userId = ''u2'', type = ''income'', category = ''Salary'',
          amount = 500, note' = [], date = 0, createdAt = 0, updatedAt = 0 \<rparr>]
   \<and> exportCsv \<lparr> LocalTZA = 0, legacyDateParse = (\<lambda>s. None) \<rparr> (Some ''u1'')
       [\<lparr> docId = ''a'', userId = ''u2'', type = ''income'', category = ''Salary'',
          amount = 500, note' = [], date = 0, createdAt = 0, updatedAt = 0 \<rparr>]
     = Redirect ''/?error=No%20transactions%20to%20export.''"
  using export_nothing_to_export [of "''u1''"
          "[\<lparr> docId = ''a'', userId = ''u2'', type = ''income'', category = ''Salary'',
              amount = 500, note' = [], date = 0, createdAt = 0, updatedAt = 0 \<rparr>]"
          "\<lparr> LocalTZA = 0, legacyDateParse = (\<lambda>s. None) \<rparr>"]
  by simp

section \<open>The schema's default owner\<close>

text \<open>
  C10. A transaction constructed with no \<^verbatim>\<open>userId\<close> passes the \<^verbatim>\<open>required\<close> check of
  that path, whatever its other paths hold; when the other paths are valid it is saved,
  and the stored document has the owner \<^verbatim>\<open>default_user\<close>.
\<close>

theorem default_owner_on_create:
  assumes "in_userId i = None"
  shows "list_all (\<lambda>err. fst err \<noteq> ''userId'') (validate (newTransaction i))
       \<and> (\<forall>ty c a t. in_type i = Some ty \<and> (ty = ''income'' \<or> ty = ''expense'')
            \<and> in_category i = Some c \<and> c \<noteq> []
            \<and> in_amount i = Some (Num a) \<and> a \<ge> 1 / 100
            \<and> in_date i = Some (Some t)
          \<longrightarrow> save newId now (newTransaction i) db =
                Inr (db @ [\<lparr> docId = newId, userId = ''default_user'', type = ty, category = c,
                              amount = a,
                              note' = (case in_note i of None \<Rightarrow> [] | Some n \<Rightarrow> trim n),
                              date = t, createdAt = now, updatedAt = now \<rparr>]))"
proof -
  have first: "list_all (\<lambda>err. fst err \<noteq> ''userId'') (validate (newTransaction i))"
    using assms
    by (simp add: validate_def newTransaction_def requiredString_def
        split: option.splits jsnum.splits)
  have second: "save newId now (newTransaction i) db =
                Inr (db @ [\<lparr> docId = newId, userId = ''default_user'', type = ty, category = c,
                              amount = a,
                              note' = (case in_note i of None \<Rightarrow> [] | Some n \<Rightarrow> trim n),
                              date = t, createdAt = now, updatedAt = now \<rparr>])"
    if "in_type i = Some ty" "ty = ''income'' \<or> ty = ''expense''" "in_category i = Some c" "c \<noteq> []"
       "in_amount i = Some (Num a)" "a \<ge> 1 / 100" "in_date i = Some (Some t)"
    for ty c a t
    using assms that
    by (auto simp add: save_def validate_def newTransaction_def requiredString_def
        split: option.splits)
  from first second show ?thesis by blast
qed

theorem default_owner_on_create_witness:
  "in_userId \<lparr> in_userId = None, in_type = Some ''income'', in_category = Some ''Salary'',
               in_amount = Some (Num 500), in_note = None, in_date = Some (Some 0) \<rparr> = None
   \<and> save ''65a1b2c3d4e5f60718293a4b'' 7
        (newTransaction \<lparr> in_userId = None, in_type = Some ''income'', in_category = Some ''Salary'',
                          in_amount = Some (Num 500), in_note = None, in_date = Some (Some 0) \<rparr>) []
     = Inr [\<lparr> docId = ''65a1b2c3d4e5f60718293a4b'', userId = ''default_user'', type = ''income'',
              category = ''Salary'', amount = 500, note' = [], date = 0,
              createdAt = 7, updatedAt = 7 \<rparr>]"
  using default_owner_on_create [of
          "\<lparr> in_userId = None, in_type = Some ''income'', in_category = Some ''Salary'',
              in_amount = Some (Num 500), in_note = None, in_date = Some (Some 0) \<rparr>"
          "''65a1b2c3d4e5f60718293a4b''" 7 "[]"]
  by simp

section \<open>Evaluating dates\<close>

lemma digits_numeral:
  "digits (numeral k) =
     (if (numeral k :: nat) < 10 then [''0123456789'' ! numeral k]
      else digits (numeral k div 10) @ [''0123456789'' ! (numeral k mod 10)])"
  by (rule digits.simps)

lemma digits_small: "digits 0 = ''0''" "digits 1 = ''1''" "digits (Suc 0) = ''1''"
  by (simp_all add: digits.simps)

lemma LocalTime_UTC: "LocalTime e (UTC e t) = t"
  by (simp add: LocalTime_def UTC_def)

lemma TimeClip_UTC:
  "\<bar>LocalTZA e\<bar> \<le> 86400000 \<Longrightarrow> \<bar>t\<bar> \<le> 8639999913600000 \<Longrightarrow> TimeClip (UTC e t) = Some (UTC e t)"
  by (simp add: TimeClip_def UTC_def)

lemmas field_defs =
  YearFromTime_def MonthFromTime_def DateFromTime_def TimeWithinDay_def Day_def msPerDay_def

lemma civil_2024_03_31: "civilFromDays 19813 = (2024, 3, 31)"
  by code_simp

lemma civil_2023_05_01: "civilFromDays 19478 = (2023, 5, 1)"
  by code_simp

lemma noon_2024_03_31: "MakeDate (daysFromCivil 2024 3 31) 43200000 = 1711886400000"
  by (simp add: MakeDate_def daysFromCivil_def msPerDay_def)

lemma getMonth_2024_03_31: "getMonth e (Some (UTC e 1711886400000)) = Num 2"
  apply (simp only: getMonth_def option.case LocalTime_UTC field_defs)
  apply (simp add: civil_2024_03_31)
  done

lemma setMonth_2024_03_31:
  "\<bar>LocalTZA e\<bar> \<le> 86400000 \<Longrightarrow>
   setMonth e (Some (UTC e 1711886400000)) (Num (- 9)) = Some (UTC e 1682942400000)"
  apply (simp only: setMonth_def LocalTime_UTC Let_def prod.case option.case jsnum.case)
  apply (simp only: field_defs)
  apply (simp add: civil_2024_03_31)
  apply (simp add: MakeDay_def ToInteger_def daysFromCivil_def)
  apply (simp add: MakeDate_def msPerDay_def TimeClip_UTC)
  done

lemma setDate_2023_05_01:
  "\<bar>LocalTZA e\<bar> \<le> 86400000 \<Longrightarrow>
   setDate e (Some (UTC e 1682942400000)) (Num 1) = Some (UTC e 1682942400000)"
  apply (simp only: setDate_def LocalTime_UTC Let_def prod.case option.case jsnum.case)
  apply (simp only: field_defs)
  apply (simp add: civil_2023_05_01)
  apply (simp add: MakeDay_def ToInteger_def daysFromCivil_def)
  apply (simp add: MakeDate_def msPerDay_def TimeClip_UTC)
  done

lemma twelveMonthsAgo_2024_03_31:
  "\<bar>LocalTZA e\<bar> \<le> 86400000 \<Longrightarrow>
   twelveMonthsAgo e (UTC e (MakeDate (daysFromCivil 2024 3 31) 43200000)) = Some (UTC e 1682942400000)"
  apply (simp only: twelveMonthsAgo_def noon_2024_03_31 Let_def getMonth_2024_03_31)
  apply (simp add: jsSub_def setMonth_2024_03_31 setDate_2023_05_01)
  done

section \<open>The trailing window\<close>

text \<open>
  C5. The claim: for every \<open>now\<close>, \<^verbatim>\<open>twelveMonthsAgo\<close> is the first day of the month
  eleven months before the current one. The code calls \<^verbatim>\<open>setMonth\<close> while the date still
  holds today's day of the month, and only then \<^verbatim>\<open>setDate(1)\<close>. In whatever time zone
  the server runs, at noon of 31 March 2024 the month eleven months back is April 2023;
  \<^verbatim>\<open>setMonth\<close> makes 31 April 2023, which is 1 May 2023, and the window starts on
  1 May 2023 instead of 1 April 2023.
\<close>

theorem twelveMonthsAgo_on_31_March:
  assumes "\<bar>LocalTZA e\<bar> \<le> 86400000"
  shows "formatDate e (twelveMonthsAgo e (UTC e (MakeDate (daysFromCivil 2024 3 31) 43200000)))
         = ''May 1, 2023''"
  apply (simp only: twelveMonthsAgo_2024_03_31 [OF assms] formatDate_def option.case LocalTime_UTC Let_def)
  apply (simp only: field_defs)
  apply (simp add: civil_2023_05_01 monthShort_def showInt_def yearOfEra_def digits_numeral digits_small)
  done

theorem twelveMonthsAgo_on_31_March_witness:
  "\<bar>LocalTZA \<lparr> LocalTZA = 0, legacyDateParse = (\<lambda>s. None) \<rparr>\<bar> \<le> 86400000
   \<and> formatDate \<lparr> LocalTZA = 0, legacyDateParse = (\<lambda>s. None) \<rparr>
        (twelveMonthsAgo \<lparr> LocalTZA = 0, legacyDateParse = (\<lambda>s. None) \<rparr>
          (UTC \<lparr> LocalTZA = 0, legacyDateParse = (\<lambda>s. None) \<rparr>
            (MakeDate (daysFromCivil 2024 3 31) 43200000)))
       = ''May 1, 2023''"
  using twelveMonthsAgo_on_31_March [of "\<lparr> LocalTZA = 0, legacyDateParse = (\<lambda>s. None) \<rparr>"]
  by simp

end
